theory Spec2Isabelle
  imports Complex_Main
begin

section \<open>Python values used by the model\<close>

text \<open>Exceptions that the modelled code can raise. An exception is the \<open>Inl\<close> branch of a
  sum type; a normal return is the \<open>Inr\<close> branch.\<close>

datatype py_error = ValueError | IndexError | KeyError | ZeroDivisionError | OSError

text \<open>A Python \<open>dict\<close> with integer keys and integer values is an association list in
  insertion order. \<open>coefs\<close> maps an exponent to a coefficient, \<open>poly\<close> maps a degree in
  \<open>p\<close> to a coefficient.\<close>

type_synonym coefs = "(int \<times> int) list"
type_synonym poly = "(int \<times> int) list"

text \<open>\<open>A.get(i, 0)\<close>\<close>

definition dget :: "poly \<Rightarrow> int \<Rightarrow> int" where
  "dget A i = (case map_of A i of None \<Rightarrow> 0 | Some c \<Rightarrow> c)"

section \<open>BLexpansion.py\<close>

text \<open>\<open>_as_fraction_exponent\<close> for an integer key: \<open>Fraction(key, exponent_den)\<close>, which
  raises \<open>ZeroDivisionError\<close> for a zero denominator.\<close>

definition as_fraction_exponent :: "int \<Rightarrow> int \<Rightarrow> py_error + rat" where
  "as_fraction_exponent key exponent_den =
     (if exponent_den = 0 then Inl ZeroDivisionError else Inr (Fract key exponent_den))"

text \<open>The first loop of \<open>taylor_from_jones\<close>: the list \<open>terms\<close> of pairs \<open>(r, c)\<close>, skipping
  zero coefficients.\<close>

fun terms_of :: "coefs \<Rightarrow> int \<Rightarrow> py_error + (rat \<times> int) list" where
  "terms_of [] exponent_den = Inr []"
| "terms_of ((k, c) # kcs) exponent_den =
     (if c = 0 then terms_of kcs exponent_den
      else case as_fraction_exponent k exponent_den of
             Inl e \<Rightarrow> Inl e
           | Inr r \<Rightarrow> (case terms_of kcs exponent_den of
                        Inl e \<Rightarrow> Inl e
                      | Inr ts \<Rightarrow> Inr ((r, c) # ts)))"

text \<open>The inner loop \<open>for m in range(n + 1): M[m] += c * rp; rp *= r\<close>, run along the
  list \<open>M\<close> of length \<open>n + 1\<close>.\<close>

fun add_powers :: "rat list \<Rightarrow> int \<Rightarrow> rat \<Rightarrow> rat \<Rightarrow> rat list" where
  "add_powers [] c rp r = []"
| "add_powers (x # M) c rp r = (x + of_int c * rp) # add_powers M c (rp * r) r"

definition power_sums :: "(rat \<times> int) list \<Rightarrow> nat \<Rightarrow> rat list" where
  "power_sums terms len = fold (\<lambda>(r, c) M. add_powers M c 1 r) terms (replicate len 0)"

text \<open>\<open>math.factorial\<close>, a Python integer.\<close>

fun factorial :: "nat \<Rightarrow> int" where
  "factorial 0 = 1"
| "factorial (Suc m) = (int m + 1) * factorial m"

definition taylor_from_jones :: "coefs \<Rightarrow> int \<Rightarrow> int \<Rightarrow> py_error + rat list" where
  "taylor_from_jones coefs n exponent_den =
     (if n < 0 then Inl ValueError
      else case terms_of coefs exponent_den of
             Inl e \<Rightarrow> Inl e
           | Inr terms \<Rightarrow>
               (let M = power_sums terms (nat (n + 1))
                in Inr (map (\<lambda>m. M ! m / of_int (factorial m)) [0..<nat (n + 1)])))"

section \<open>JVP.py\<close>

text \<open>\<open>out[d] += c\<close> on a \<open>defaultdict(int)\<close>: an existing key is updated in place, a new
  key is appended with value \<open>0 + c\<close>.\<close>

fun dd_add :: "poly \<Rightarrow> int \<Rightarrow> int \<Rightarrow> poly" where
  "dd_add [] d c = [(d, 0 + c)]"
| "dd_add ((d', c') # out) d c =
     (if d' = d then (d', c' + c) # out else (d', c') # dd_add out d c)"

definition dd_add_all :: "poly \<Rightarrow> poly \<Rightarrow> poly" where
  "dd_add_all A out = fold (\<lambda>(d, c) out. dd_add out d c) A out"

definition poly_add :: "poly \<Rightarrow> poly \<Rightarrow> poly" where
  "poly_add A B = filter (\<lambda>(d, c). c \<noteq> 0) (dd_add_all B (dd_add_all A []))"

definition poly_scalar_mul :: "poly \<Rightarrow> int \<Rightarrow> poly" where
  "poly_scalar_mul A k = (if k = 0 then [] else map (\<lambda>(d, c). (d, k * c)) A)"

text \<open>\<open>{d+1: c for d, c in A.items()}\<close>: the keys of a dict are distinct and the shift is
  injective, so no key is written twice.\<close>

definition poly_mul_p :: "poly \<Rightarrow> poly" where
  "poly_mul_p A = map (\<lambda>(d, c). (d + 1, c)) A"

definition mul_by_x :: "poly \<times> poly \<Rightarrow> poly \<times> poly" where
  "mul_by_x AB = (case AB of (A, B) \<Rightarrow> (B, poly_add A (poly_mul_p B)))"

definition mul_by_y :: "poly \<times> poly \<Rightarrow> poly \<times> poly" where
  "mul_by_y AB = (case AB of (A, B) \<Rightarrow> (poly_add B (poly_scalar_mul (poly_mul_p A) (- 1)), A))"

text \<open>The loop \<open>for _ in range(2, n+1): A, B = step(A, B); T.append((A, B))\<close>, as the list
  of the appended entries.\<close>

fun table_loop :: "(poly \<times> poly \<Rightarrow> poly \<times> poly) \<Rightarrow> nat \<Rightarrow> poly \<times> poly \<Rightarrow> (poly \<times> poly) list" where
  "table_loop step 0 AB = []"
| "table_loop step (Suc j) AB = step AB # table_loop step j (step AB)"

definition power_table_x :: "int \<Rightarrow> (poly \<times> poly) list" where
  "power_table_x n =
     (if n = 0 then [([(0, 1)], [])]
      else [([(0, 1)], []), ([(0, 0)], [(0, 1)])]
           @ table_loop mul_by_x (nat (n + 1 - 2)) ([(0, 0)], [(0, 1)]))"

definition power_table_y :: "int \<Rightarrow> (poly \<times> poly) list" where
  "power_table_y n =
     (if n = 0 then [([(0, 1)], [])]
      else [([(0, 1)], []), ([(1, - 1)], [(0, 1)])]
           @ table_loop mul_by_y (nat (n + 1 - 2)) ([(1, - 1)], [(0, 1)]))"

text \<open>\<open>max(xs or [0])\<close>\<close>

definition max_or_0 :: "int list \<Rightarrow> int" where
  "max_or_0 xs = (case xs of [] \<Rightarrow> 0 | x # ys \<Rightarrow> fold max ys x)"

text \<open>\<open>T[idx]\<close> for a list and a non-negative or negative Python index.\<close>

definition py_index :: "'a list \<Rightarrow> int \<Rightarrow> py_error + 'a" where
  "py_index T idx =
     (let n = int (length T); j = (if idx < 0 then n + idx else idx)
      in if 0 \<le> j \<and> j < n then Inr (T ! nat j) else Inl IndexError)"

text \<open>The accumulation loop of \<open>jones_to_Vxp\<close> over \<open>coefs.items()\<close>.\<close>

fun Vxp_loop :: "bool \<Rightarrow> (poly \<times> poly) list \<Rightarrow> (poly \<times> poly) list \<Rightarrow> coefs
    \<Rightarrow> poly \<times> poly \<Rightarrow> py_error + poly \<times> poly" where
  "Vxp_loop half X Y [] tot = Inr tot"
| "Vxp_loop half X Y ((k, c) # kcs) tot =
     (if c = 0 then Vxp_loop half X Y kcs tot
      else case (if k \<ge> 0 then py_index X (if half then k else 2 * k)
                 else py_index Y (if half then - k else 2 * (- k))) of
             Inl e \<Rightarrow> Inl e
           | Inr (A_k, B_k) \<Rightarrow>
               (let A_k' = (if c \<noteq> 1 then poly_scalar_mul A_k c else A_k);
                    B_k' = (if c \<noteq> 1 then poly_scalar_mul B_k c else B_k)
                in Vxp_loop half X Y kcs (poly_add (fst tot) A_k', poly_add (snd tot) B_k')))"

definition jones_to_Vxp :: "coefs \<Rightarrow> bool \<Rightarrow> py_error + poly \<times> poly" where
  "jones_to_Vxp coefs input_q_is_half_power =
     (if length coefs = 0 then Inr ([], [])
      else
        let max_pos = max_or_0 (filter (\<lambda>k. k \<ge> 0) (map fst coefs));
            max_neg = max_or_0 (map (\<lambda>k. - k) (filter (\<lambda>k. k < 0) (map fst coefs)));
            X = (if input_q_is_half_power then power_table_x max_pos
                 else power_table_x (2 * max_pos));
            Y = (if input_q_is_half_power then power_table_y max_neg
                 else power_table_y (2 * max_neg))
        in Vxp_loop input_q_is_half_power X Y coefs ([], []))"

section \<open>Jm\_triviality.py: the Jm index\<close>

text \<open>\<open>[k for k, i in enumerate(c) if i != 0][0] + 1\<close>: \<open>IndexError\<close> when no entry of \<open>c\<close>
  is nonzero.\<close>

definition first_nonzero_plus_1 :: "'a::zero list \<Rightarrow> py_error + int" where
  "first_nonzero_plus_1 c =
     (case filter (\<lambda>(k, i). i \<noteq> 0) (enumerate 0 c) of
        [] \<Rightarrow> Inl IndexError
      | (k, i) # _ \<Rightarrow> Inr (int k + 1))"

definition Jm_bl :: "rat list \<Rightarrow> py_error + int" where
  "Jm_bl c = first_nonzero_plus_1 (drop 1 c)"

text \<open>\<open>max(A | B)\<close> is the greatest key of the two dicts and raises \<open>ValueError\<close> when both
  are empty.\<close>

definition Jm_jvp :: "poly \<Rightarrow> poly \<Rightarrow> py_error + int" where
  "Jm_jvp A B =
     (case map fst A @ map fst B of
        [] \<Rightarrow> Inl ValueError
      | k # ks \<Rightarrow>
          first_nonzero_plus_1
            (drop 1 (map (\<lambda>i. dget A i + dget B i) [0..fold max ks k])))"

text \<open>The two lambdas stored in \<open>Jtransform\<close>, with the engine arguments left open:
  \<open>Jm_bl(taylor_from_jones(coefs, n, exponent_den=...))\<close> and
  \<open>Jm_jvp(*jones_to_Vxp(coefs, input_q_is_half_power=...))\<close>.\<close>

definition Jm_bl_of :: "coefs \<Rightarrow> int \<Rightarrow> int \<Rightarrow> py_error + int" where
  "Jm_bl_of coeff n exponent_den =
     (case taylor_from_jones coeff n exponent_den of Inl e \<Rightarrow> Inl e | Inr c \<Rightarrow> Jm_bl c)"

definition Jm_jvp_of :: "coefs \<Rightarrow> bool \<Rightarrow> py_error + int" where
  "Jm_jvp_of coeff input_q_is_half_power =
     (case jones_to_Vxp coeff input_q_is_half_power of
        Inl e \<Rightarrow> Inl e
      | Inr (A, B) \<Rightarrow> Jm_jvp A B)"

text \<open>\<open>Jtransform[rep](coeff)\<close>: the dict has the keys \<open>"JVP"\<close> and \<open>"BL"\<close>; both
  engines are called with their default convention (integer powers of \<open>q\<close>), the
  expansion order of the BL engine is 11.\<close>

definition Jtransform :: "string \<Rightarrow> coefs \<Rightarrow> py_error + int" where
  "Jtransform rep coeff =
     (if rep = ''JVP'' then Jm_jvp_of coeff False
      else if rep = ''BL'' then Jm_bl_of coeff 11 1
      else Inl KeyError)"

definition trefoil :: coefs where
  "trefoil = [(4, - 1), (3, 1), (1, 1)]"


section \<open>Jm\_triviality.py: the shard classifier\<close>

text \<open>\<open>d[k] = v\<close> on a dict: an existing key keeps its place, a new key goes to the end.\<close>

fun dict_set :: "('k \<times> 'v) list \<Rightarrow> 'k \<Rightarrow> 'v \<Rightarrow> ('k \<times> 'v) list" where
  "dict_set [] k v = [(k, v)]"
| "dict_set ((k', v') # d) k v = (if k' = k then (k', v) # d else (k', v') # dict_set d k v)"

subsection \<open>Label parsing\<close>

text \<open>Labels are byte strings of ASCII characters. \<open>isdigit\<close>, \<open>isalpha\<close> and
  \<open>isspace\<close> are the ASCII tests of Python.\<close>

definition isdigit :: "char \<Rightarrow> bool" where
  "isdigit c = (let n = (of_char c :: nat) in 48 \<le> n \<and> n \<le> 57)"

definition isalpha :: "char \<Rightarrow> bool" where
  "isalpha c = (let n = (of_char c :: nat) in (65 \<le> n \<and> n \<le> 90) \<or> (97 \<le> n \<and> n \<le> 122))"

definition isspace :: "char \<Rightarrow> bool" where
  "isspace c = (let n = (of_char c :: nat) in n = 32 \<or> (9 \<le> n \<and> n \<le> 13))"

text \<open>\<open>s.split(c)[0]\<close> and \<open>s.split(c)[-1]\<close> for a one-character separator.\<close>

definition split_first :: "char \<Rightarrow> string \<Rightarrow> string" where
  "split_first c s = takeWhile (\<lambda>x. x \<noteq> c) s"

definition split_last :: "char \<Rightarrow> string \<Rightarrow> string" where
  "split_last c s = rev (takeWhile (\<lambda>x. x \<noteq> c) (rev s))"

fun starts_with :: "string \<Rightarrow> string \<Rightarrow> bool" where
  "starts_with s [] = True"
| "starts_with [] (c # sub) = False"
| "starts_with (x # s) (c # sub) = (x = c \<and> starts_with s sub)"

text \<open>\<open>sub in s\<close>\<close>

fun contains :: "string \<Rightarrow> string \<Rightarrow> bool" where
  "contains [] sub = (sub = [])"
| "contains (x # s) sub = (starts_with (x # s) sub \<or> contains s sub)"

text \<open>\<open>numerics = lambda s, l=-1: ''.join([c for c in s if c.isdigit()])[:l]\<close>, for a
  non-negative \<open>l\<close>.\<close>

definition numerics :: "string \<Rightarrow> nat \<Rightarrow> string" where
  "numerics s l = take l (filter isdigit s)"

definition lstrip :: "string \<Rightarrow> string" where
  "lstrip s = dropWhile isspace s"

definition rstrip :: "string \<Rightarrow> string" where
  "rstrip s = rev (dropWhile isspace (rev s))"

fun digits_value :: "string \<Rightarrow> int \<Rightarrow> int" where
  "digits_value [] acc = acc"
| "digits_value (c # cs) acc = digits_value cs (10 * acc + (int (of_char c) - 48))"

text \<open>\<open>int(s)\<close> for a string without underscores (the argument below is a segment of a
  split at \<open>'_'\<close>): surrounding whitespace, an optional sign and at least one digit;
  anything else raises \<open>ValueError\<close>.\<close>

definition py_int :: "string \<Rightarrow> py_error + int" where
  "py_int s =
     (let t = rstrip (lstrip s);
          neg = (t \<noteq> [] \<and> hd t = CHR ''-'');
          ds = (if t \<noteq> [] \<and> (hd t = CHR ''-'' \<or> hd t = CHR ''+'') then tl t else t)
      in if ds \<noteq> [] \<and> list_all isdigit ds
         then Inr (if neg then - digits_value ds 0 else digits_value ds 0)
         else Inl ValueError)"

text \<open>\<open>knot_label.split('_')[0] if ('_' in knot_label and 'jones' not in knot_label) else
  numerics(knot_label, 2)\<close>\<close>

definition crossings_of :: "string \<Rightarrow> string" where
  "crossings_of knot_label =
     (if List.member knot_label (CHR ''_'') \<and> \<not> contains knot_label ''jones''
      then split_first (CHR ''_'') knot_label
      else numerics knot_label 2)"

text \<open>\<open>int(knot_label.split('_')[-1].split(':')[-1].split('a')[-1].split('n')[-1])\<close>\<close>

definition knot_id_of :: "string \<Rightarrow> py_error + int" where
  "knot_id_of knot_label =
     py_int (split_last (CHR ''n'') (split_last (CHR ''a'')
       (split_last (CHR '':'') (split_last (CHR ''_'') knot_label))))"

subsection \<open>Worker state\<close>

text \<open>A run \<open>[crossings, first_id, last_id, label]\<close>, a bucket entry
  \<open>[label, max, histogram]\<close> of \<open>local_Jm_table\<close>, and the pair of tables that a worker
  returns. The progress counter \<open>count\<close> only feeds diagnostics and is left out.\<close>

record run =
  bucket :: string
  first_id :: int
  last_id :: int
  rep_label :: string

record bucket_stats =
  holder :: string
  max_m :: int
  hist :: "(int \<times> int) list"

record worker =
  Jm_table :: "(string \<times> bucket_stats) list"
  knot_ids :: "(int \<times> run list) list"

text \<open>\<open>str(i) for i in range(1, 20)\<close>\<close>

definition bucket_labels :: "string list" where
  "bucket_labels = [''1'', ''2'', ''3'', ''4'', ''5'', ''6'', ''7'', ''8'', ''9'', ''10'',
     ''11'', ''12'', ''13'', ''14'', ''15'', ''16'', ''17'', ''18'', ''19'']"

definition initial_worker :: worker where
  "initial_worker =
     \<lparr>Jm_table = map (\<lambda>c. (c, \<lparr>holder = [], max_m = 2, hist = []\<rparr>)) bucket_labels,
      knot_ids = map (\<lambda>m. (m, [])) [0..9]\<rparr>"

text \<open>The module constant \<open>min_m\<close>. The global \<open>sample_interval\<close> is set by \<open>main\<close> from
  the option \<open>--S\<close> and is a parameter below.\<close>

definition min_m :: int where
  "min_m = 1"

text \<open>The update of \<open>local_knot_ids[m]\<close> (the \<open>if\<close>/\<open>elif\<close> under \<open>if m > min_m\<close>).\<close>

definition update_runs :: "int \<Rightarrow> run list \<Rightarrow> string \<Rightarrow> int \<Rightarrow> string \<Rightarrow> run list" where
  "update_runs sample_interval runs crossings knot_id knot_label =
     (if runs = [] \<or> knot_id > last_id (last runs) + sample_interval
         \<or> crossings \<noteq> bucket (last runs)
      then runs @ [\<lparr>bucket = crossings, first_id = knot_id, last_id = knot_id,
                    rep_label = knot_label\<rparr>]
      else if knot_id = last_id (last runs) + 1
      then butlast runs @ [(last runs)\<lparr>last_id := last_id (last runs) + 1\<rparr>]
      else runs)"

text \<open>The last statement of the \<open>try\<close> block: a new maximum holder.\<close>

definition update_holder :: "worker \<Rightarrow> string \<Rightarrow> string \<Rightarrow> int \<Rightarrow> worker" where
  "update_holder st crossings knot_label m =
     (case map_of (Jm_table st) crossings of
        None \<Rightarrow> st
      | Some b \<Rightarrow>
          if m > max_m b
          then st\<lparr>Jm_table := dict_set (Jm_table st) crossings
                     (b\<lparr>holder := knot_label, max_m := m\<rparr>)\<rparr>
          else st)"

text \<open>The inner \<open>try\<close> block of \<open>process_split_file\<close> with its \<open>except Exception:
  continue\<close>. An exception leaves the state as it was when it was raised: an exception of the
  engine or a \<open>KeyError\<close> of \<open>local_Jm_table[crossings]\<close> before any update, a
  \<open>KeyError\<close> of \<open>local_knot_ids[m]\<close> after the histogram update.\<close>

definition classify :: "int \<Rightarrow> string \<Rightarrow> worker \<Rightarrow> string \<Rightarrow> int \<Rightarrow> string \<Rightarrow> coefs \<Rightarrow> worker" where
  "classify sample_interval rep st crossings knot_id knot_label coeff =
     (case Jtransform rep coeff of
        Inl e \<Rightarrow> st
      | Inr m \<Rightarrow>
          (case map_of (Jm_table st) crossings of
             None \<Rightarrow> st
           | Some b \<Rightarrow>
               (let st1 = st\<lparr>Jm_table := dict_set (Jm_table st) crossings
                                (b\<lparr>hist := dd_add (hist b) m 1\<rparr>)\<rparr>
                in if m > min_m
                   then (case map_of (knot_ids st1) m of
                           None \<Rightarrow> st1
                         | Some runs \<Rightarrow>
                             update_holder
                               (st1\<lparr>knot_ids := dict_set (knot_ids st1) m
                                  (update_runs sample_interval runs crossings knot_id
                                     knot_label)\<rparr>)
                               crossings knot_label m)
                   else update_holder st1 crossings knot_label m)))"

text \<open>One iteration of the loop over the records of a shard. A record is the pair of its
  label and of \<open>{int(k): int(v) for k, v in knot_data.get("coeffs", {}).items()}\<close>, with
  \<open>None\<close> for a record without the key \<open>"coeffs"\<close>. \<open>Continue\<close> goes on with the
  next record; \<open>Abort\<close> is an exception outside the inner \<open>try\<close>, caught by the outer
  \<open>except\<close>, which ends the loop and keeps the tables accumulated so far.\<close>

datatype 'a step = Continue 'a | Abort 'a

definition process_record :: "int \<Rightarrow> string \<Rightarrow> worker \<Rightarrow> string \<times> coefs option \<Rightarrow> worker step" where
  "process_record sample_interval rep st r =
     (case r of (knot_label, knot_data) \<Rightarrow>
        if knot_label = ''0_1'' then Continue st
        else
          let coeff = (case knot_data of None \<Rightarrow> [] | Some c \<Rightarrow> c)
          in if coeff = [] then Continue st
             else
               let crossings = crossings_of knot_label
               in case knot_id_of knot_label of
                    Inl e \<Rightarrow> Abort st
                  | Inr knot_id \<Rightarrow>
                      Continue (classify sample_interval rep st crossings knot_id knot_label
                                  coeff))"

fun process_records :: "int \<Rightarrow> string \<Rightarrow> worker \<Rightarrow> (string \<times> coefs option) list \<Rightarrow> worker" where
  "process_records sample_interval rep st [] = st"
| "process_records sample_interval rep st (r # rs) =
     (case process_record sample_interval rep st r of
        Continue st' \<Rightarrow> process_records sample_interval rep st' rs
      | Abort st' \<Rightarrow> st')"

definition process_split_file :: "int \<Rightarrow> string \<Rightarrow> (string \<times> coefs option) list \<Rightarrow> worker" where
  "process_split_file sample_interval rep records =
     process_records sample_interval rep initial_worker records"

section \<open>Jm\_triviality.py: merging and the probability table\<close>

text \<open>\<open>d[m] += count\<close> on a plain dict: \<open>KeyError\<close> for a missing key.\<close>

fun dict_incr :: "(int \<times> int) list \<Rightarrow> int \<Rightarrow> int \<Rightarrow> py_error + (int \<times> int) list" where
  "dict_incr [] m n = Inl KeyError"
| "dict_incr ((m', c) # d) m n =
     (if m' = m then Inr ((m', c + n) # d)
      else case dict_incr d m n of Inl e \<Rightarrow> Inl e | Inr d' \<Rightarrow> Inr ((m', c) # d'))"

fun incr_all :: "(int \<times> int) list \<Rightarrow> (int \<times> int) list \<Rightarrow> py_error + (int \<times> int) list" where
  "incr_all d [] = Inr d"
| "incr_all d ((m, n) # h) =
     (case dict_incr d m n of Inl e \<Rightarrow> Inl e | Inr d' \<Rightarrow> incr_all d' h)"

text \<open>The body of \<open>for crossings, data in Jm_table.items()\<close>.\<close>

definition merge_bucket ::
    "(string \<times> bucket_stats) list \<Rightarrow> string \<times> bucket_stats \<Rightarrow> py_error + (string \<times> bucket_stats) list" where
  "merge_bucket merged cd =
     (case cd of (crossings, d) \<Rightarrow>
        (case map_of merged crossings of
           None \<Rightarrow> Inl KeyError
         | Some b \<Rightarrow>
             (case incr_all (hist b) (hist d) of
                Inl e \<Rightarrow> Inl e
              | Inr h \<Rightarrow>
                  Inr (dict_set merged crossings
                        (if max_m d > max_m b
                         then \<lparr>holder = holder d, max_m = max_m d, hist = h\<rparr>
                         else b\<lparr>hist := h\<rparr>)))))"

fun merge_table ::
    "(string \<times> bucket_stats) list \<Rightarrow> (string \<times> bucket_stats) list \<Rightarrow> py_error + (string \<times> bucket_stats) list" where
  "merge_table merged [] = Inr merged"
| "merge_table merged (cd # t) =
     (case merge_bucket merged cd of Inl e \<Rightarrow> Inl e | Inr merged' \<Rightarrow> merge_table merged' t)"

text \<open>\<open>merged_knot_ids[m] = merged_knot_ids[m] + knots\<close> on a \<open>defaultdict(list)\<close>.\<close>

definition merge_runs :: "(int \<times> run list) list \<Rightarrow> (int \<times> run list) list \<Rightarrow> (int \<times> run list) list" where
  "merge_runs merged ids =
     fold (\<lambda>(m, knots) acc.
             dict_set acc m ((case map_of acc m of None \<Rightarrow> [] | Some old \<Rightarrow> old) @ knots))
          ids merged"

definition initial_merged :: "(string \<times> bucket_stats) list" where
  "initial_merged =
     map (\<lambda>c. (c, \<lparr>holder = [], max_m = 2, hist = map (\<lambda>m. (m, 0)) [2..10]\<rparr>)) bucket_labels"

fun merge_loop ::
    "(string \<times> bucket_stats) list \<times> (int \<times> run list) list \<Rightarrow> worker list
     \<Rightarrow> py_error + (string \<times> bucket_stats) list \<times> (int \<times> run list) list" where
  "merge_loop acc [] = Inr acc"
| "merge_loop acc (w # ws) =
     (case merge_table (fst acc) (Jm_table w) of
        Inl e \<Rightarrow> Inl e
      | Inr t \<Rightarrow> merge_loop (t, merge_runs (snd acc) (knot_ids w)) ws)"

definition merge_results ::
    "worker list \<Rightarrow> py_error + (string \<times> bucket_stats) list \<times> (int \<times> run list) list" where
  "merge_results results = merge_loop (initial_merged, []) results"

text \<open>The loop of \<open>main\<close> that fills \<open>data\<close>, the content of the probability file (a dict
  from bucket label to list of floats). The float division \<open>p / n_knots\<close> of two Python
  integers is the parameter \<open>truediv\<close>.\<close>

definition probs_of :: "(int \<Rightarrow> int \<Rightarrow> 'f) \<Rightarrow> bucket_stats \<Rightarrow> int \<Rightarrow> 'f list" where
  "probs_of truediv d n_knots =
     map (\<lambda>(i, p). truediv p n_knots) (filter (\<lambda>(i, p). i \<le> max_m d) (hist d))"

fun prob_loop ::
    "(int \<Rightarrow> int \<Rightarrow> 'f) \<Rightarrow> (string \<times> bucket_stats) list \<Rightarrow> (string \<times> 'f list) list
     \<Rightarrow> (string \<times> 'f list) list" where
  "prob_loop truediv [] data = data"
| "prob_loop truediv ((c, d) # t) data =
     prob_loop truediv t
       (if holder d \<noteq> [] then
          (let n_knots = sum_list (map snd (hist d))
           in if n_knots > 0 then dict_set data c (probs_of truediv d n_knots) else data)
        else data)"

text \<open>\<open>main\<close> from the parsed shards to the probability table: classify every shard, merge,
  derive the probabilities.\<close>

definition probability_table ::
    "(int \<Rightarrow> int \<Rightarrow> 'f) \<Rightarrow> int \<Rightarrow> string \<Rightarrow> (string \<times> coefs option) list list
     \<Rightarrow> (string \<times> 'f list) list \<Rightarrow> py_error + (string \<times> 'f list) list" where
  "probability_table truediv sample_interval rep shards data =
     (case merge_results (map (process_split_file sample_interval rep) shards) of
        Inl e \<Rightarrow> Inl e
      | Inr (table, ids) \<Rightarrow> Inr (prob_loop truediv table data))"

section \<open>Jm\_triviality.py: the shard splitter\<close>

text \<open>The corpus file is its content, a byte string; an open file is the content together
  with a position. \<open>bytes.find(sub, start)\<close> and \<open>bytes.rfind(sub)\<close> return \<open>-1\<close> when
  \<open>sub\<close> does not occur; a negative \<open>start\<close> counts from the end.\<close>

fun find_at :: "string \<Rightarrow> string \<Rightarrow> nat \<Rightarrow> int" where
  "find_at [] sub i = (if sub = [] then int i else - 1)"
| "find_at (c # s) sub i = (if starts_with (c # s) sub then int i else find_at s sub (Suc i))"

definition py_find :: "string \<Rightarrow> string \<Rightarrow> int \<Rightarrow> int" where
  "py_find s sub start =
     (let st = (if start < 0 then max 0 (int (length s) + start) else start)
      in if st > int (length s) then - 1 else find_at (drop (nat st) s) sub (nat st))"

fun rfind_scan :: "string \<Rightarrow> string \<Rightarrow> nat \<Rightarrow> int \<Rightarrow> int" where
  "rfind_scan [] sub i acc = (if sub = [] then int i else acc)"
| "rfind_scan (c # s) sub i acc =
     rfind_scan s sub (Suc i) (if starts_with (c # s) sub then int i else acc)"

definition py_rfind :: "string \<Rightarrow> string \<Rightarrow> int" where
  "py_rfind s sub = rfind_scan s sub 0 (- 1)"

text \<open>The inner loop of \<open>find_record_boundary_forward\<close>,
  \<open>while byte != b'"': f.seek(-2, 1); byte = f.read(1)\<close>, entered at position \<open>pos\<close> after
  a byte other than the quote was read. Seeking before the start of the file raises
  \<open>OSError\<close>. The result is \<open>f.tell()\<close> after the quote was read.\<close>

fun back_to_quote :: "string \<Rightarrow> nat \<Rightarrow> py_error + nat" where
  "back_to_quote file pos =
     (if pos < 2 then Inl OSError
      else if file ! (pos - 2) = CHR 0x22 then Inr (pos - 1)
      else back_to_quote file (pos - 1))"

text \<open>The outer loop of \<open>find_record_boundary_forward\<close>. At the end of the file
  \<open>f.read(1)\<close> returns \<open>b''\<close>, which is neither alphabetic nor \<open>b'_'\<close>, and the position
  stays where it is: the loop then never ends, which is the value \<open>None\<close> of the outer
  \<open>option\<close>. A return of the Python value \<open>None\<close> is \<open>Inr None\<close>.\<close>

partial_function (option) boundary_scan ::
    "string \<Rightarrow> nat \<Rightarrow> nat \<Rightarrow> nat \<Rightarrow> (py_error + nat option) option" where
  "boundary_scan file start_pos max_search pos =
     (if pos - start_pos < max_search then
        (if pos < length file then
           (if isalpha (file ! pos) \<or> file ! pos = CHR ''_'' then
              Some (case back_to_quote file (Suc pos) of
                      Inl e \<Rightarrow> Inl e
                    | Inr p \<Rightarrow> Inr (Some p))
            else boundary_scan file start_pos max_search (Suc pos))
         else boundary_scan file start_pos max_search pos)
      else Some (Inr None))"

definition find_record_boundary_forward ::
    "string \<Rightarrow> nat \<Rightarrow> nat \<Rightarrow> (py_error + nat option) option" where
  "find_record_boundary_forward file pos max_search = boundary_scan file pos max_search pos"

text \<open>The body of \<open>for i in range(1, n_splits)\<close>: the split point for one target. A
  boundary is accepted when it is truthy (neither \<open>None\<close> nor \<open>0\<close>).\<close>

definition split_point :: "string \<Rightarrow> int \<Rightarrow> (py_error + int) option" where
  "split_point file target_pos =
     (if target_pos < 0 then Some (Inl OSError)
      else
        case find_record_boundary_forward file (nat target_pos) 100000 of
          None \<Rightarrow> None
        | Some (Inl e) \<Rightarrow> Some (Inl e)
        | Some (Inr (Some (Suc b))) \<Rightarrow> Some (Inr (int (Suc b)))
        | Some (Inr _) \<Rightarrow>
            (case find_record_boundary_forward file (nat target_pos) 500000 of
               None \<Rightarrow> None
             | Some (Inl e) \<Rightarrow> Some (Inl e)
             | Some (Inr (Some (Suc b))) \<Rightarrow> Some (Inr (int (Suc b)))
             | Some (Inr _) \<Rightarrow> Some (Inr target_pos)))"

fun split_points_loop :: "string \<Rightarrow> int \<Rightarrow> int \<Rightarrow> int list \<Rightarrow> (py_error + int list) option" where
  "split_points_loop file data_start chunk_size [] = Some (Inr [])"
| "split_points_loop file data_start chunk_size (i # is) =
     (case split_point file (data_start + i * chunk_size) of
        None \<Rightarrow> None
      | Some (Inl e) \<Rightarrow> Some (Inl e)
      | Some (Inr b) \<Rightarrow>
          (case split_points_loop file data_start chunk_size is of
             None \<Rightarrow> None
           | Some (Inl e) \<Rightarrow> Some (Inl e)
           | Some (Inr bs) \<Rightarrow> Some (Inr (b # bs))))"

text \<open>The cleaning of a chunk: leading whitespace and one comma, trailing whitespace and
  one comma.\<close>

definition clean_chunk :: "string \<Rightarrow> string" where
  "clean_chunk chunk_data =
     (let c1 = lstrip chunk_data;
          c2 = (if starts_with c1 '','' then lstrip (drop 1 c1) else c1);
          c3 = rstrip c2
      in if c3 \<noteq> [] \<and> last c3 = CHR '','' then rstrip (butlast c3) else c3)"

text \<open>The content of split file \<open>i\<close>: \<open>f.seek(start)\<close>, \<open>f.read(chunk_bytes)\<close>, the
  cleaning and the scaffold. \<open>read(-1)\<close> reads to the end of the file, any other negative
  length raises \<open>ValueError\<close>.\<close>

definition write_split :: "string \<Rightarrow> int list \<Rightarrow> nat \<Rightarrow> py_error + string" where
  "write_split file split_points i =
     (let start = split_points ! i - (if i > 0 then 1 else 0);
          end = split_points ! (i + 1) - 1;
          chunk_bytes = end - start
      in if start < 0 then Inl OSError
         else if chunk_bytes < - 1 then Inl ValueError
         else
           let rest = drop (nat start) file;
               chunk_data = (if chunk_bytes = - 1 then rest else take (nat chunk_bytes) rest)
           in Inr (''{\"data\":{'' @ clean_chunk chunk_data
                   @ (if int i < int (length split_points) - 2 then ''}'' else '''') @ ''}''))"

fun write_splits :: "string \<Rightarrow> int list \<Rightarrow> nat list \<Rightarrow> py_error + string list" where
  "write_splits file split_points [] = Inr []"
| "write_splits file split_points (i # is) =
     (case write_split file split_points i of
        Inl e \<Rightarrow> Inl e
      | Inr out \<Rightarrow>
          (case write_splits file split_points is of
             Inl e \<Rightarrow> Inl e
           | Inr outs \<Rightarrow> Inr (out # outs)))"

text \<open>\<open>ultra_fast_split\<close>: the result is the list of the contents of the split files
  \<open>knots_split_000.json\<close>, \<open>knots_split_001.json\<close>, ... \<open>f.seek(-10000, 2)\<close> raises
  \<open>OSError\<close> on a file shorter than 10000 bytes.\<close>

definition ultra_fast_split :: "string \<Rightarrow> int \<Rightarrow> (py_error + string list) option" where
  "ultra_fast_split file n_splits =
     (let file_size = int (length file);
          header = take 10000 file;
          data_start = py_find header '': {'' (py_find header ''\"data\"'' 0) + 3
      in if file_size < 10000 then Some (Inl OSError)
         else
           let footer = drop (nat (file_size - 10000)) file;
               data_end = file_size - int (length footer) + py_rfind footer ''}'';
               data_size = data_end - data_start
           in if n_splits = 0 then Some (Inl ZeroDivisionError)
              else
                let chunk_size = data_size div n_splits
                in case split_points_loop file data_start chunk_size [1..n_splits - 1] of
                     None \<Rightarrow> None
                   | Some (Inl e) \<Rightarrow> Some (Inl e)
                   | Some (Inr bs) \<Rightarrow>
                       (let split_points = [data_start] @ bs @ [data_end]
                        in Some (write_splits file split_points
                                   [0..<length split_points - 1])))"

text \<open>A corpus in the layout that \<open>OptimizedJonesScraper1.py\<close> writes: one record per
  line, here \<open>n\<close> records \<open>16n_1, ..., 16n_n\<close> with the trefoil coefficients followed by
  the record \<open>4_1\<close>.\<close>

fun decimal :: "nat \<Rightarrow> string" where
  "decimal n = (if n < 10 then [char_of (48 + n)] else decimal (n div 10) @ [char_of (48 + n mod 10)])"

definition record_line :: "nat \<Rightarrow> string" where
  "record_line i =
     ''  \"16n_'' @ decimal i @ ''\": {\"coeffs\": {\"4\": -1, \"3\": 1, \"1\": 1}},'' @ [CHR 0x0A]"

definition corpus :: "nat \<Rightarrow> string" where
  "corpus n =
     ''{'' @ [CHR 0x0A] @ ''  \"meta\": {},'' @ [CHR 0x0A] @ ''  \"data\": {'' @ [CHR 0x0A]
     @ concat (map record_line [1..<Suc n])
     @ ''  \"4_1\": {\"coeffs\": {\"-2\": 1, \"-1\": -1, \"0\": 1, \"1\": -1, \"2\": 1}}'' @ [CHR 0x0A]
     @ ''  }'' @ [CHR 0x0A] @ ''}'' @ [CHR 0x0A]"

section \<open>Evaluations of the two engines\<close>

text \<open>C2 (as stated): on the trefoil map \<open>{4: -1, 3: 1, 1: 1}\<close> with integer powers, the BL
  path at order 11 and the JVP path both report Jm = 3. The code reports another value on
  both paths.\<close>

theorem C2_trefoil_is_not_3:
  "Jm_bl_of trefoil 11 1 \<noteq> Inr 3 \<and> Jm_jvp_of trefoil False \<noteq> Inr 3"
  by code_simp

text \<open>C2 (amended): on the trefoil map with integer powers, the BL path at order 11 and the
  JVP path both report Jm = 2: the Taylor list starts \<open>1, 0, -3\<close> and the merged
  list starts \<open>1, 0, -3\<close>, so the first nonzero entry after the constant has index 2.\<close>

theorem C2_trefoil_is_2:
  "Jm_bl_of trefoil 11 1 = Inr 2 \<and> Jm_jvp_of trefoil False = Inr 2"
  by code_simp


text \<open>C10: on the empty map \<open>jones_to_Vxp\<close> returns the pair of empty dicts, for either
  value of \<open>input_q_is_half_power\<close>, and raises nothing.\<close>

theorem C10_empty_map: "jones_to_Vxp [] input_q_is_half_power = Inr ([], [])"
  by (simp add: jones_to_Vxp_def)

end
